theory Spec2Isabelle
  imports Complex_Main
begin

section \<open>Values, chunk records and the vector store adapter\<close>

text \<open>
  The vector service of the repository (the module that imports
  \<^verbatim>\<open>RecursiveCharacterTextSplitter\<close>, \<^verbatim>\<open>getVectorStore\<close> and \<^verbatim>\<open>randomUUID\<close>) has three
  exported functions: \<^verbatim>\<open>storeInVectorDB\<close>, \<^verbatim>\<open>searchVectorStore\<close> and
  \<^verbatim>\<open>deleteFromVectorDB\<close>. Each is embedded below as a function on an explicit world.

  A value of type \<^verbatim>\<open>Record<string, any>\<close> is a finite map from property names to
  JSON values; the object spread \<^verbatim>\<open>{...m, k: v}\<close> is the map update \<open>m(k \<mapsto> v)\<close>.
\<close>

datatype json = JString string | JNumber int | JBool bool | JNull

text \<open>A thrown value: an \<^verbatim>\<open>Error\<close> object with its message, or any other value.\<close>

datatype error = Error string | Thrown json

text \<open>
  The objects built by \<^verbatim>\<open>chunks.map\<close> carry \<^verbatim>\<open>id\<close>, \<^verbatim>\<open>content\<close> and \<^verbatim>\<open>metadata\<close>
  (the field \<^verbatim>\<open>id\<close> is written \<open>ident\<close>); a search result carries a \<^verbatim>\<open>score\<close> as well.
\<close>

record document =
  ident :: string
  content :: string
  metadata :: "string \<rightharpoonup> json"

record search_result = document +
  score :: real

text \<open>
  The adapter that \<^verbatim>\<open>getVectorStore()\<close> resolves to: three operations on a store state
  of any type \<open>'st\<close>. \<open>upsert\<close> and \<open>delete\<close> resolve (\<open>None\<close>) or reject (\<open>Some e\<close>) and
  leave a store state either way; \<open>search\<close> reads the store and resolves to a result
  list or rejects.

  The module \<^verbatim>\<open>./vector\<close> is not among the sources, so what \<^verbatim>\<open>await getVectorStore()\<close>
  gives is a parameter \<open>getVectorStore\<close> of each of the three functions: \<open>Inr\<close> of the
  adapter when the promise resolves, \<open>Inl\<close> of the error when it rejects.
\<close>

record 'st vector_store =
  upsert :: "document list \<Rightarrow> 'st \<Rightarrow> error option \<times> 'st"
  search :: "string \<Rightarrow> int \<Rightarrow> (string \<rightharpoonup> json) \<Rightarrow> 'st \<Rightarrow> error + search_result list"
  delete :: "string list \<Rightarrow> 'st \<Rightarrow> error option \<times> 'st"

text \<open>
  The world the three functions act on: the adapter's store, the adapter calls made so
  far (oldest first), the lines written to the console, and the number of
  \<^verbatim>\<open>randomUUID()\<close> draws made so far.
\<close>

datatype call =
    Upsert "document list"
  | Search string int "string \<rightharpoonup> json"
  | Delete "string list"

datatype console_line =
    StoredChunks nat string
  | DeletedChunks nat string
  | ErrorDeletingVectors string error

record 'st world =
  store :: 'st
  calls :: "call list"
  console :: "console_line list"
  uuidsDrawn :: nat

type_synonym ('a, 'st) io = "'st world \<Rightarrow> (error + 'a) \<times> 'st world"

section \<open>storeInVectorDB\<close>

text \<open>
  \<^verbatim>\<open>chunks.map((chunk, index) => ({ id: randomUUID(), content: chunk,
     metadata: { ...metadata, chunkIndex: index, totalChunks: chunks.length } }))\<close>

  \<open>randomUUID k\<close> is the value of the \<open>k\<close>-th call of \<^verbatim>\<open>randomUUID()\<close> in the process;
  \<open>drawn\<close> is the number of calls made before the map starts.
\<close>

definition documents ::
  "(nat \<Rightarrow> string) \<Rightarrow> nat \<Rightarrow> (string \<rightharpoonup> json) \<Rightarrow> string list \<Rightarrow> document list" where
  "documents randomUUID drawn md chunks =
     map (\<lambda>(index, chunk).
            \<lparr>ident = randomUUID (drawn + index),
             content = chunk,
             metadata = md(''chunkIndex'' \<mapsto> JNumber (int index),
                           ''totalChunks'' \<mapsto> JNumber (int (length chunks)))\<rparr>)
         (enumerate 0 chunks)"

text \<open>
  \<open>splitText\<close> is \<^verbatim>\<open>textSplitter.splitText\<close>, the splitter of the third-party package
  \<^verbatim>\<open>@langchain/textsplitters\<close> configured with \<^verbatim>\<open>CHUNK_SIZE\<close> and \<^verbatim>\<open>CHUNK_OVERLAP\<close>; it is
  a parameter, and its promise resolves to the chunks or rejects. The function awaits
  three promises in this order, \<^verbatim>\<open>splitText\<close>, then (after the records are built and
  their ids drawn) \<^verbatim>\<open>getVectorStore\<close>, then \<^verbatim>\<open>upsert\<close>, and has no \<^verbatim>\<open>try\<close>: the rejection
  of any of them leaves the function, and the console line is written only after
  \<^verbatim>\<open>upsert\<close> resolved.
\<close>

definition storeInVectorDB ::
  "(string \<Rightarrow> error + string list) \<Rightarrow> (nat \<Rightarrow> string) \<Rightarrow> error + 'st vector_store \<Rightarrow>
   string \<Rightarrow> string \<Rightarrow> (string \<rightharpoonup> json) \<Rightarrow> (unit, 'st) io" where
  "storeInVectorDB splitText randomUUID getVectorStore documentId text md w =
     (case splitText text of
        Inl e \<Rightarrow> (Inl e, w)
      | Inr chunks \<Rightarrow>
          (let docs = documents randomUUID (uuidsDrawn w) md chunks;
               w1 = w\<lparr>uuidsDrawn := uuidsDrawn w + length chunks\<rparr>
           in case getVectorStore of
                Inl e \<Rightarrow> (Inl e, w1)
              | Inr vectorStore \<Rightarrow>
                  (let (r, s) = upsert vectorStore docs (store w1);
                       w2 = w1\<lparr>store := s, calls := calls w1 @ [Upsert docs]\<rparr>
                   in case r of
                        Some e \<Rightarrow> (Inl e, w2)
                      | None \<Rightarrow>
                          (Inr (), w2\<lparr>console := console w2 @
                             [StoredChunks (length docs) documentId]\<rparr>))))"

section \<open>searchVectorStore\<close>

text \<open>
  \<^verbatim>\<open>topK: number = 5\<close> and \<^verbatim>\<open>filter?: Record<string, any>\<close>: an absent argument is
  \<open>None\<close>; spreading an absent filter adds no property.
  \<^verbatim>\<open>const searchFilter = { ...filter, userId }\<close>. The function awaits \<^verbatim>\<open>getVectorStore\<close>
  first and \<^verbatim>\<open>search\<close> last, with no \<^verbatim>\<open>try\<close>.
\<close>

definition searchFilter :: "(string \<rightharpoonup> json) option \<Rightarrow> string \<Rightarrow> (string \<rightharpoonup> json)" where
  "searchFilter flt userId =
     (case flt of None \<Rightarrow> Map.empty | Some f \<Rightarrow> f)(''userId'' \<mapsto> JString userId)"

definition searchVectorStore ::
  "error + 'st vector_store \<Rightarrow> string \<Rightarrow> string \<Rightarrow> int option \<Rightarrow>
   (string \<rightharpoonup> json) option \<Rightarrow> (search_result list, 'st) io" where
  "searchVectorStore getVectorStore qry userId topK flt w =
     (case getVectorStore of
        Inl e \<Rightarrow> (Inl e, w)
      | Inr vectorStore \<Rightarrow>
          (let k = (case topK of None \<Rightarrow> 5 | Some n \<Rightarrow> n);
               sf = searchFilter flt userId;
               results = search vectorStore qry k sf (store w)
           in (results, w\<lparr>calls := calls w @ [Search qry k sf]\<rparr>)))"

section \<open>deleteFromVectorDB\<close>

text \<open>
  \<^verbatim>\<open>try { body } catch (error) { handler }\<close>: what the body threw goes to the handler,
  together with the world the body left.
\<close>

definition try_catch ::
  "('a, 'st) io \<Rightarrow> (error \<Rightarrow> ('a, 'st) io) \<Rightarrow> ('a, 'st) io" where
  "try_catch body handler w =
     (case body w of
        (Inl e, w') \<Rightarrow> handler e w'
      | (Inr v, w') \<Rightarrow> (Inr v, w'))"

text \<open>
  The body of the \<^verbatim>\<open>try\<close>: \<^verbatim>\<open>search("", 1000, { documentId })\<close>, then
  \<^verbatim>\<open>results.map((r) => r.id)\<close>, then \<^verbatim>\<open>delete(chunkIds)\<close> and a console line when
  \<^verbatim>\<open>chunkIds.length > 0\<close>.
\<close>

definition deleteChunks :: "'st vector_store \<Rightarrow> string \<Rightarrow> (unit, 'st) io" where
  "deleteChunks vectorStore documentId w =
     (let flt = [''documentId'' \<mapsto> JString documentId];
          w1 = w\<lparr>calls := calls w @ [Search [] 1000 flt]\<rparr>
      in case search vectorStore [] 1000 flt (store w) of
           Inl e \<Rightarrow> (Inl e, w1)
         | Inr results \<Rightarrow>
             (let chunkIds = map ident results
              in if length chunkIds > 0
                 then (let (r, s) = delete vectorStore chunkIds (store w1);
                           w2 = w1\<lparr>store := s, calls := calls w1 @ [Delete chunkIds]\<rparr>
                       in case r of
                            Some e \<Rightarrow> (Inl e, w2)
                          | None \<Rightarrow>
                              (Inr (), w2\<lparr>console := console w2 @
                                 [DeletedChunks (length chunkIds) documentId]\<rparr>))
                 else (Inr (), w1)))"

text \<open>
  \<^verbatim>\<open>const vectorStore = await getVectorStore()\<close> is the first statement of the function
  and stands before the \<^verbatim>\<open>try\<close>: its rejection is not caught. The \<^verbatim>\<open>catch\<close> writes the
  error to the console and returns (\<^verbatim>\<open>// Don't throw - document can still be deleted
  even if vector cleanup fails\<close>).
\<close>

definition deleteFromVectorDB :: "error + 'st vector_store \<Rightarrow> string \<Rightarrow> (unit, 'st) io" where
  "deleteFromVectorDB getVectorStore documentId w =
     (case getVectorStore of
        Inl e \<Rightarrow> (Inl e, w)
      | Inr vectorStore \<Rightarrow>
          try_catch (deleteChunks vectorStore documentId)
            (\<lambda>e w'. (Inr (), w'\<lparr>console := console w' @ [ErrorDeletingVectors documentId e]\<rparr>))
            w)"

section \<open>The chat page: handleSubmit\<close>

text \<open>
  The search page keeps its conversation in React state: \<^verbatim>\<open>query\<close>, \<^verbatim>\<open>messages\<close>,
  \<^verbatim>\<open>isStreaming\<close> and \<^verbatim>\<open>currentChatId\<close>. A \<^verbatim>\<open>Message\<close> has \<^verbatim>\<open>role\<close>, \<^verbatim>\<open>content\<close>
  (written \<open>content'\<close>, the name \<open>content\<close> being taken by the chunk records) and optional
  \<^verbatim>\<open>sources\<close>. The toasts shown are kept in the state as well.
\<close>

datatype role = User | Assistant

record message =
  role :: role
  content' :: string
  sources :: "search_result list option"

datatype toast =
    ResponseGenerated nat
  | ErrorToast string

record page_state =
  query :: string
  messages :: "message list"
  isStreaming :: bool
  currentChatId :: "string option"
  toasts :: "toast list"

text \<open>
  \<^verbatim>\<open>String.prototype.trim\<close> removes white space and line terminators from both ends. A
  string is here a list of characters with codes below 256; of these, the white space
  and line terminators of the language are tab (9), line feed (10), vertical tab (11),
  form feed (12), carriage return (13), space (32) and no-break space (160). The others
  (U+FEFF, U+1680, U+2000 to U+200A, U+2028, U+2029, U+202F, U+205F, U+3000) have no
  character of this type.
\<close>

definition isWhiteSpace :: "char \<Rightarrow> bool" where
  "isWhiteSpace c =
     (c = CHR 0x09 \<or> c = CHR 0x0A \<or> c = CHR 0x0B \<or> c = CHR 0x0C \<or> c = CHR 0x0D \<or>
      c = CHR '' '' \<or> c = CHR 0xA0)"

definition trim :: "string \<Rightarrow> string" where
  "trim s = rev (dropWhile isWhiteSpace (rev (dropWhile isWhiteSpace s)))"

text \<open>
  \<^verbatim>\<open>prev.filter((msg, idx) => !(msg.role === "user" && msg.content === userQuery
      && idx === prev.length - 1))\<close>
\<close>

definition removeUserMessage :: "string \<Rightarrow> message list \<Rightarrow> message list" where
  "removeUserMessage userQuery prev =
     map snd (filter (\<lambda>(idx, msg). \<not> (role msg = User \<and> content' msg = userQuery \<and>
                                        int idx = int (length prev) - 1))
                (enumerate 0 prev))"

text \<open>
  \<^verbatim>\<open>if (!chatId) { const chat = await createChatMutation.mutateAsync({ title:
      userQuery.substring(0, 50) }); chatId = chat.id; setCurrentChatId(chatId);
      setMessages([]); }\<close>

  \<^verbatim>\<open>!chatId\<close> holds for \<^verbatim>\<open>null\<close> and for the empty string. \<open>createChat\<close> is the server's
  \<^verbatim>\<open>chat.create\<close>, given the title and answering with the new chat's id or an error.
\<close>

definition ensureChat ::
  "(string \<Rightarrow> error + string) \<Rightarrow> string \<Rightarrow> page_state \<Rightarrow> error + string \<times> page_state" where
  "ensureChat createChat userQuery st =
     (case currentChatId st of
        Some c \<Rightarrow>
          if c \<noteq> [] then Inr (c, st)
          else (case createChat (take 50 userQuery) of
                  Inl e \<Rightarrow> Inl e
                | Inr chatId \<Rightarrow> Inr (chatId, st\<lparr>currentChatId := Some chatId, messages := []\<rparr>))
      | None \<Rightarrow>
          (case createChat (take 50 userQuery) of
             Inl e \<Rightarrow> Inl e
           | Inr chatId \<Rightarrow> Inr (chatId, st\<lparr>currentChatId := Some chatId, messages := []\<rparr>)))"

text \<open>
  \<open>handleSubmit\<close>, run to its end with no other handler or effect of the page in
  between. \<open>sendMessageMutation\<close> is the server's \<^verbatim>\<open>chat.sendMessage\<close>, called with the
  chat id, the message and \<^verbatim>\<open>topK: 5\<close>, answering with \<^verbatim>\<open>message\<close> and \<^verbatim>\<open>sources\<close> or an
  error. The creation of the chat is outside the \<^verbatim>\<open>try\<close>, so its error leaves the
  function; the error of \<^verbatim>\<open>sendMessageMutation\<close> is caught, and \<^verbatim>\<open>finally\<close> resets
  \<^verbatim>\<open>isStreaming\<close> on both paths. \<^verbatim>\<open>preventDefault\<close> and \<^verbatim>\<open>refetchChats\<close> touch nothing of
  the state kept here.
\<close>

definition handleSubmit ::
  "(string \<Rightarrow> error + string) \<Rightarrow>
   (string \<Rightarrow> string \<Rightarrow> int \<Rightarrow> error + string \<times> search_result list option) \<Rightarrow>
   page_state \<Rightarrow> (error + unit) \<times> page_state" where
  "handleSubmit createChat sendMessageMutation st =
     (if trim (query st) = [] \<or> isStreaming st then (Inr (), st)
      else
        (let userQuery = trim (query st)
         in case ensureChat createChat userQuery st of
              Inl e \<Rightarrow> (Inl e, st)
            | Inr (chatId, st1) \<Rightarrow>
                (let userMessage = \<lparr>role = User, content' = userQuery, sources = None\<rparr>;
                     st2 = st1\<lparr>messages := messages st1 @ [userMessage],
                              query := [], isStreaming := True\<rparr>
                 in case sendMessageMutation chatId userQuery 5 of
                      Inr (answer, srcs) \<Rightarrow>
                        (Inr (),
                         st2\<lparr>messages := messages st2 @
                                [\<lparr>role = Assistant, content' = answer, sources = srcs\<rparr>],
                              toasts := toasts st2 @
                                [ResponseGenerated (case srcs of None \<Rightarrow> 0 | Some xs \<Rightarrow> length xs)],
                              isStreaming := False\<rparr>)
                    | Inl e \<Rightarrow>
                        (Inr (),
                         st2\<lparr>messages := removeUserMessage userQuery (messages st2),
                              toasts := toasts st2 @
                                [ErrorToast (case e of Error msg \<Rightarrow> msg
                                             | Thrown v \<Rightarrow> ''Failed to send message'')],
                              isStreaming := False\<rparr>))))"

section \<open>The chat orchestrator: sendMessage\<close>

text \<open>
  Modelled from the spec: the persisted \<^verbatim>\<open>Chat\<close> of the data model (title, owning user
  id, ordered sequence of messages) and the two updates of its message sequence that
  the orchestrator makes, appending a message and removing the one appended last. The
  server side of \<^verbatim>\<open>chat.sendMessage\<close> (the router \<^verbatim>\<open>./chat\<close>) is missing from the sources;
  only its caller \<open>handleSubmit\<close> and the router table are there.
\<close>

record chat =
  title :: string
  ownerId :: string
  chatMessages :: "message list"

definition appendMessage :: "string \<Rightarrow> message \<Rightarrow> (string \<rightharpoonup> chat) \<Rightarrow> (string \<rightharpoonup> chat)" where
  "appendMessage chatId m chats =
     (case chats chatId of
        None \<Rightarrow> chats
      | Some c \<Rightarrow> chats(chatId \<mapsto> c\<lparr>chatMessages := chatMessages c @ [m]\<rparr>))"

definition rollbackMessage :: "string \<Rightarrow> (string \<rightharpoonup> chat) \<Rightarrow> (string \<rightharpoonup> chat)" where
  "rollbackMessage chatId chats =
     (case chats chatId of
        None \<Rightarrow> chats
      | Some c \<Rightarrow> chats(chatId \<mapsto> c\<lparr>chatMessages := butlast (chatMessages c)\<rparr>))"

text \<open>
  Modelled from the spec: the operation \<^verbatim>\<open>sendMessage(chatId?, message, topK)\<close> of the
  chat orchestrator, whose implementation is missing from the sources. Its six steps and
  its failure rule are those of the specification: (1) with no \<^verbatim>\<open>chatId\<close>, create a chat
  titled with a prefix of the message (50 characters, as the page asks for) and use its
  id; (2) append the user message, without sources; (3) retrieve with the message, the
  chat owner's user id and \<^verbatim>\<open>topK\<close>; (4) generate from the message and the contents
  retrieved; (5) append the assistant message with the text and all sources; (6) return
  it. When step 3 or 4 fails, the user message of step 2 is removed again. The
  specification says nothing of a \<^verbatim>\<open>chatId\<close> that names no chat: the model rejects it
  and leaves the chats as they are. \<open>retrieve\<close> and \<open>generate\<close> are the two
  collaborators, \<open>caller\<close> is the user who sends, and \<open>newChatId\<close> proposes the id of a
  new chat. Step 1 creates a new chat and never writes over one: when the id proposed
  is the id of a chat, nothing is created, the call is rejected and the chats are left
  as they are.
\<close>

definition sendMessage ::
  "(string \<Rightarrow> string \<Rightarrow> int \<Rightarrow> error + search_result list) \<Rightarrow>
   (string \<Rightarrow> string list \<Rightarrow> error + string) \<Rightarrow>
   ((string \<rightharpoonup> chat) \<Rightarrow> string) \<Rightarrow> string \<Rightarrow>
   string option \<Rightarrow> string \<Rightarrow> int \<Rightarrow> (string \<rightharpoonup> chat) \<Rightarrow>
   (error + message) \<times> (string \<rightharpoonup> chat)" where
  "sendMessage retrieve generate newChatId caller chatIdOpt msg topK chats =
     (if chatIdOpt = None \<and> chats (newChatId chats) \<noteq> None
      then (Inl (Error ''chat id in use''), chats)
      else
        (let (chatId, chats1) =
               (case chatIdOpt of
                  Some c \<Rightarrow> (c, chats)
                | None \<Rightarrow>
                    (newChatId chats,
                     chats(newChatId chats \<mapsto>
                       \<lparr>title = take 50 msg, ownerId = caller, chatMessages = []\<rparr>)))
         in case chats1 chatId of
              None \<Rightarrow> (Inl (Error ''chat not found''), chats1)
            | Some c \<Rightarrow>
                (let chats2 = appendMessage chatId
                                \<lparr>role = User, content' = msg, sources = None\<rparr> chats1
                 in case retrieve msg (ownerId c) topK of
                      Inl e \<Rightarrow> (Inl e, rollbackMessage chatId chats2)
                    | Inr srcs \<Rightarrow>
                        (case generate msg (map content srcs) of
                           Inl e \<Rightarrow> (Inl e, rollbackMessage chatId chats2)
                         | Inr answer \<Rightarrow>
                             (let reply = \<lparr>role = Assistant, content' = answer,
                                           sources = Some srcs\<rparr>
                              in (Inr reply, appendMessage chatId reply chats2))))))"

text \<open>
  Modelled from the spec: a persisted history that contains no user question without
  an assistant answer, the state the failure rule of \<^verbatim>\<open>sendMessage\<close> is there to keep.
\<close>

fun answered :: "message list \<Rightarrow> bool" where
  "answered [] = True"
| "answered [m] = False"
| "answered (u # a # ms) = (role u = User \<and> role a = Assistant \<and> answered ms)"

section \<open>Adapters, splitters and worlds to run the functions on\<close>

text \<open>
  An adapter over a list of records kept in memory: \<open>upsert\<close> replaces the records of
  the same ids and appends, \<open>search\<close> returns the first \<open>topK\<close> records whose metadata
  agree with every property of the filter, \<open>delete\<close> drops the ids given.
\<close>

definition matches :: "(string \<rightharpoonup> json) \<Rightarrow> document \<Rightarrow> bool" where
  "matches flt d = (\<forall>key\<in>dom flt. metadata d key = flt key)"

definition memoryStore :: "document list vector_store" where
  "memoryStore =
     \<lparr>upsert = (\<lambda>docs s. (None, filter (\<lambda>d. ident d \<notin> ident ` set docs) s @ docs)),
      search = (\<lambda>q k flt s.
         Inr (map (\<lambda>d. \<lparr>ident = ident d, content = content d, metadata = metadata d, score = 1\<rparr>)
                (take (nat k) (filter (matches flt) s)))),
      delete = (\<lambda>ids s. (None, filter (\<lambda>d. ident d \<notin> set ids) s))\<rparr>"

text \<open>
  The same adapter with \<open>delete\<close> rejecting, an adapter whose every operation rejects,
  and the rejection of \<^verbatim>\<open>getVectorStore()\<close> itself.
\<close>

definition readOnlyStore :: "document list vector_store" where
  "readOnlyStore = memoryStore\<lparr>delete := (\<lambda>ids s. (Some (Error ''read-only''), s))\<rparr>"

definition unreachableStore :: "document list vector_store" where
  "unreachableStore =
     \<lparr>upsert = (\<lambda>docs s. (Some (Error ''ECONNREFUSED''), s)),
      search = (\<lambda>q k flt s. Inl (Error ''ECONNREFUSED'')),
      delete = (\<lambda>ids s. (Some (Error ''ECONNREFUSED''), s))\<rparr>"

definition noVectorStore :: "error + document list vector_store" where
  "noVectorStore = Inl (Error ''ECONNREFUSED'')"

text \<open>
  What is asked of any adapter for the results to be scoped: every result agrees with
  every property of the filter it was searched with.
\<close>

definition honoursFilter :: "'st vector_store \<Rightarrow> bool" where
  "honoursFilter vectorStore =
     (\<forall>q k flt s rs. search vectorStore q k flt s = Inr rs \<longrightarrow>
        (\<forall>r\<in>set rs. \<forall>key\<in>dom flt. metadata r key = flt key))"

text \<open>
  A splitter that always resolves, to the consecutive pieces of \<open>n\<close> characters of the
  text, and to none for the empty text; a source of identifiers whose draws are all
  different.
\<close>

fun hardCuts :: "nat \<Rightarrow> string \<Rightarrow> string list" where
  "hardCuts n [] = []"
| "hardCuts n (c # cs) =
     (if n = 0 then [] else (c # take (n - 1) cs) # hardCuts n (drop (n - 1) cs))"

definition splitInto :: "nat \<Rightarrow> string \<Rightarrow> error + string list" where
  "splitInto n text = Inr (hardCuts n text)"

definition uuidSeq :: "nat \<Rightarrow> string" where
  "uuidSeq k = ''uuid-'' @ replicate k CHR ''x''"

definition aliceDoc :: document where
  "aliceDoc = \<lparr>ident = ''c1'', content = ''alpha'',
     metadata = [''userId'' \<mapsto> JString ''alice'', ''documentId'' \<mapsto> JString ''d1'']\<rparr>"

definition bobDoc :: document where
  "bobDoc = \<lparr>ident = ''c2'', content = ''beta'',
     metadata = [''userId'' \<mapsto> JString ''bob'', ''documentId'' \<mapsto> JString ''d2'']\<rparr>"

definition emptyWorld :: "document list world" where
  "emptyWorld = \<lparr>store = [], calls = [], console = [], uuidsDrawn = 0\<rparr>"

definition twoUsers :: "document list world" where
  "twoUsers = \<lparr>store = [aliceDoc, bobDoc], calls = [], console = [], uuidsDrawn = 0\<rparr>"

text \<open>A chat with one answered question, and the page showing it with a new question typed.\<close>

definition oneChat :: "string \<rightharpoonup> chat" where
  "oneChat = [''c1'' \<mapsto> \<lparr>title = ''First'', ownerId = ''alice'',
     chatMessages = [\<lparr>role = User, content' = ''hello'', sources = None\<rparr>,
                     \<lparr>role = Assistant, content' = ''hi'', sources = Some []\<rparr>]\<rparr>]"

definition chatPage :: page_state where
  "chatPage = \<lparr>query = '' What is X? '',
     messages = [\<lparr>role = User, content' = ''hello'', sources = None\<rparr>,
                 \<lparr>role = Assistant, content' = ''hi'', sources = Some []\<rparr>],
     isStreaming = False, currentChatId = Some ''c1'', toasts = []\<rparr>"

section \<open>Facts shared by the theorems\<close>

lemma length_documents: "length (documents R c md chunks) = length chunks"
  by (simp add: documents_def)

lemma nth_documents:
  "i < length chunks \<Longrightarrow>
   documents R c md chunks ! i =
     \<lparr>ident = R (c + i), content = chunks ! i,
      metadata = md(''chunkIndex'' \<mapsto> JNumber (int i),
                    ''totalChunks'' \<mapsto> JNumber (int (length chunks)))\<rparr>"
  by (simp add: documents_def nth_enumerate_eq)

lemma content_documents: "map content (documents R c md chunks) = chunks"
  by (rule nth_equalityI) (simp_all add: length_documents nth_documents)

lemma ident_documents: "map ident (documents R c md chunks) = map R [c..<c + length chunks]"
  by (rule nth_equalityI) (simp_all add: length_documents nth_documents)

text \<open>The three ways through \<open>storeInVectorDB\<close>.\<close>

lemma storeInVectorDB_split_rejected:
  "splitText text = Inl e \<Longrightarrow> storeInVectorDB splitText R gvs d text md w = (Inl e, w)"
  by (simp add: storeInVectorDB_def)

lemma storeInVectorDB_handle_rejected:
  "splitText text = Inr chunks \<Longrightarrow>
   storeInVectorDB splitText R (Inl e) d text md w =
     (Inl e, w\<lparr>uuidsDrawn := uuidsDrawn w + length chunks\<rparr>)"
  by (simp add: storeInVectorDB_def Let_def)

lemma storeInVectorDB_resolved:
  "splitText text = Inr chunks \<Longrightarrow>
   storeInVectorDB splitText R (Inr vs) d text md w =
     (case fst (upsert vs (documents R (uuidsDrawn w) md chunks) (store w)) of
        Some e \<Rightarrow> Inl e | None \<Rightarrow> Inr (),
      w\<lparr>uuidsDrawn := uuidsDrawn w + length chunks,
        store := snd (upsert vs (documents R (uuidsDrawn w) md chunks) (store w)),
        calls := calls w @ [Upsert (documents R (uuidsDrawn w) md chunks)],
        console :=
          (case fst (upsert vs (documents R (uuidsDrawn w) md chunks) (store w)) of
             Some e \<Rightarrow> console w
           | None \<Rightarrow> console w @ [StoredChunks (length chunks) d])\<rparr>)"
  by (cases "upsert vs (documents R (uuidsDrawn w) md chunks) (store w)")
    (simp add: storeInVectorDB_def Let_def length_documents split: option.splits)

lemma storeInVectorDB_uuidsDrawn:
  "splitText text = Inr chunks \<Longrightarrow>
   uuidsDrawn (snd (storeInVectorDB splitText R gvs d text md w)) = uuidsDrawn w + length chunks"
  by (cases gvs) (simp_all add: storeInVectorDB_def Let_def split: prod.splits option.splits)

lemma searchFilter_userId: "searchFilter flt U ''userId'' = Some (JString U)"
  by (simp add: searchFilter_def)

lemma searchVectorStore_calls:
  "calls (snd (searchVectorStore (Inr vs) q U k flt w)) =
     calls w @ [Search q (case k of None \<Rightarrow> 5 | Some n \<Rightarrow> n) (searchFilter flt U)]"
  by (simp add: searchVectorStore_def Let_def)

lemma searchVectorStore_result:
  "fst (searchVectorStore (Inr vs) q U k flt w) =
     search vs q (case k of None \<Rightarrow> 5 | Some n \<Rightarrow> n) (searchFilter flt U) (store w)"
  by (simp add: searchVectorStore_def Let_def)

lemma memoryStore_honoursFilter: "honoursFilter memoryStore"
  by (auto simp: honoursFilter_def memoryStore_def matches_def dest!: in_set_takeD bspec)

lemma matches_alice: "matches [''userId'' \<mapsto> JString ''alice''] aliceDoc"
  by (simp add: matches_def aliceDoc_def)

lemma matches_bob: "\<not> matches [''userId'' \<mapsto> JString ''alice''] bobDoc"
  by (simp add: matches_def bobDoc_def)

text \<open>The three ways through the body of the \<^verbatim>\<open>try\<close>, and the two ways out of it.\<close>

lemma deleteChunks_search_fails:
  "search vs [] 1000 [''documentId'' \<mapsto> JString d] (store w) = Inl e \<Longrightarrow>
   deleteChunks vs d w =
     (Inl e, w\<lparr>calls := calls w @ [Search [] 1000 [''documentId'' \<mapsto> JString d]]\<rparr>)"
  by (simp add: deleteChunks_def Let_def)


lemma deleteChunks_found:
  "search vs [] 1000 [''documentId'' \<mapsto> JString d] (store w) = Inr rs \<Longrightarrow> rs \<noteq> [] \<Longrightarrow>
   deleteChunks vs d w =
     (case fst (delete vs (map ident rs) (store w)) of
        Some e \<Rightarrow> Inl e | None \<Rightarrow> Inr (),
      w\<lparr>store := snd (delete vs (map ident rs) (store w)),
        calls := calls w @ [Search [] 1000 [''documentId'' \<mapsto> JString d], Delete (map ident rs)],
        console := (case fst (delete vs (map ident rs) (store w)) of
                      Some e \<Rightarrow> console w
                    | None \<Rightarrow> console w @ [DeletedChunks (length rs) d])\<rparr>)"
  by (simp add: deleteChunks_def Let_def split: prod.splits option.splits)

lemma deleteFromVectorDB_caught:
  "deleteChunks vs d w = (Inl e, w') \<Longrightarrow>
   deleteFromVectorDB (Inr vs) d w =
     (Inr (), w'\<lparr>console := console w' @ [ErrorDeletingVectors d e]\<rparr>)"
  by (simp add: deleteFromVectorDB_def try_catch_def)


lemma deleteFromVectorDB_handle_rejected: "deleteFromVectorDB (Inl e) d w = (Inl e, w)"
  by (simp add: deleteFromVectorDB_def)

text \<open>
  With the handle resolved, \<open>deleteFromVectorDB\<close> returns normally whatever \<open>search\<close> and
  \<open>delete\<close> do, and the error either of them rejected with is on the console.
\<close>

lemma deleteFromVectorDB_swallows:
  "fst (deleteFromVectorDB (Inr vs) d w) = Inr ()"
  "search vs [] 1000 [''documentId'' \<mapsto> JString d] (store w) = Inl e \<Longrightarrow>
     console (snd (deleteFromVectorDB (Inr vs) d w)) = console w @ [ErrorDeletingVectors d e]"
  "search vs [] 1000 [''documentId'' \<mapsto> JString d] (store w) = Inr rs \<Longrightarrow> rs \<noteq> [] \<Longrightarrow>
     fst (delete vs (map ident rs) (store w)) = Some e \<Longrightarrow>
     console (snd (deleteFromVectorDB (Inr vs) d w)) = console w @ [ErrorDeletingVectors d e]"
proof -
  show "fst (deleteFromVectorDB (Inr vs) d w) = Inr ()"
    by (simp add: deleteFromVectorDB_def try_catch_def split: prod.splits sum.splits)
next
  assume "search vs [] 1000 [''documentId'' \<mapsto> JString d] (store w) = Inl e"
  then show "console (snd (deleteFromVectorDB (Inr vs) d w)) =
      console w @ [ErrorDeletingVectors d e]"
    by (simp add: deleteFromVectorDB_caught [OF deleteChunks_search_fails])
next
  assume s: "search vs [] 1000 [''documentId'' \<mapsto> JString d] (store w) = Inr rs"
    and ne: "rs \<noteq> []"
    and f: "fst (delete vs (map ident rs) (store w)) = Some e"
  have "\<exists>w'. deleteChunks vs d w = (Inl e, w') \<and> console w' = console w"
    using f by (simp add: deleteChunks_found [OF s ne])
  then obtain w' where "deleteChunks vs d w = (Inl e, w')" and "console w' = console w"
    by blast
  then show "console (snd (deleteFromVectorDB (Inr vs) d w)) =
      console w @ [ErrorDeletingVectors d e]"
    by (simp add: deleteFromVectorDB_caught)
qed




lemma inj_uuidSeq: "inj uuidSeq"
  by (auto simp: inj_def uuidSeq_def dest: arg_cong [where f = length])

lemma splitInto_abcdef: "splitInto 4 ''abcdef'' = Inr [''abcd'', ''ef'']"
  by (simp add: splitInto_def)

lemma splitInto_empty: "splitInto 4 [] = Inr []"
  by (simp add: splitInto_def)

lemma filter_enumerate_all:
  "\<forall>i<length xs. P (i, xs ! i) \<Longrightarrow> map snd (filter P (enumerate 0 xs)) = xs"
proof -
  assume "\<forall>i<length xs. P (i, xs ! i)"
  then have "filter P (enumerate 0 xs) = enumerate 0 xs"
    by (intro filter_True) (auto simp: in_set_enumerate_eq)
  then show ?thesis by simp
qed

lemma removeUserMessage_last:
  "removeUserMessage q (xs @ [\<lparr>role = User, content' = q, sources = s\<rparr>]) = xs"
  by (simp add: removeUserMessage_def enumerate_append_eq filter_enumerate_all)

lemma handleSubmit_failed:
  assumes q: "trim (query st) \<noteq> []" and s: "\<not> isStreaming st"
    and c: "ensureChat createChat (trim (query st)) st = Inr (chatId, st1)"
    and f: "send chatId (trim (query st)) 5 = Inl e"
  shows "handleSubmit createChat send st =
     (Inr (), st1\<lparr>messages := messages st1, query := [], isStreaming := False,
        toasts := toasts st1 @
          [ErrorToast (case e of Error m \<Rightarrow> m | Thrown v \<Rightarrow> ''Failed to send message'')]\<rparr>)"
  using q s by (simp add: handleSubmit_def Let_def c f removeUserMessage_last)

lemma ensureChat_existing:
  "currentChatId st = Some c \<Longrightarrow> c \<noteq> [] \<Longrightarrow> ensureChat createChat uq st = Inr (c, st)"
  by (simp add: ensureChat_def)

lemma ensureChat_new:
  "currentChatId st = None \<or> currentChatId st = Some [] \<Longrightarrow> createChat (take 50 uq) = Inr c \<Longrightarrow>
   ensureChat createChat uq st = Inr (c, st\<lparr>currentChatId := Some c, messages := []\<rparr>)"
  by (auto simp: ensureChat_def)

lemma answered_append:
  "answered xs \<Longrightarrow> role u = User \<Longrightarrow> role a = Assistant \<Longrightarrow> answered (xs @ [u, a])"
  by (induction xs rule: answered.induct) simp_all

lemma rollback_append:
  "chats c = Some ch \<Longrightarrow> rollbackMessage c (appendMessage c m chats) = chats"
  by (auto simp: rollbackMessage_def appendMessage_def)

lemma append_append:
  "chats c = Some ch \<Longrightarrow>
   appendMessage c a (appendMessage c u chats) =
     chats(c \<mapsto> ch\<lparr>chatMessages := chatMessages ch @ [u, a]\<rparr>)"
  by (auto simp: appendMessage_def)

text \<open>\<open>sendMessage\<close> on a chat that is there, and \<open>sendMessage\<close> with no chat id.\<close>

lemma sendMessage_existing:
  "sendMessage Rt G N u (Some c) msg k chats =
     (case chats c of
        None \<Rightarrow> (Inl (Error ''chat not found''), chats)
      | Some ch \<Rightarrow>
          (case Rt msg (ownerId ch) k of
             Inl e \<Rightarrow> (Inl e, chats)
           | Inr srcs \<Rightarrow>
               (case G msg (map content srcs) of
                  Inl e \<Rightarrow> (Inl e, chats)
                | Inr answer \<Rightarrow>
                    (Inr \<lparr>role = Assistant, content' = answer, sources = Some srcs\<rparr>,
                     chats(c \<mapsto> ch\<lparr>chatMessages := chatMessages ch @
                        [\<lparr>role = User, content' = msg, sources = None\<rparr>,
                         \<lparr>role = Assistant, content' = answer, sources = Some srcs\<rparr>]\<rparr>)))))"
  by (auto simp: sendMessage_def Let_def rollback_append append_append
      split: option.splits sum.splits)

lemma sendMessage_new:
  "sendMessage Rt G N u None msg k chats =
     (if chats (N chats) \<noteq> None then (Inl (Error ''chat id in use''), chats)
      else
        (case Rt msg u k of
           Inl e \<Rightarrow>
             (Inl e, chats(N chats \<mapsto> \<lparr>title = take 50 msg, ownerId = u, chatMessages = []\<rparr>))
         | Inr srcs \<Rightarrow>
             (case G msg (map content srcs) of
                Inl e \<Rightarrow>
                  (Inl e, chats(N chats \<mapsto> \<lparr>title = take 50 msg, ownerId = u, chatMessages = []\<rparr>))
              | Inr answer \<Rightarrow>
                  (Inr \<lparr>role = Assistant, content' = answer, sources = Some srcs\<rparr>,
                   chats(N chats \<mapsto> \<lparr>title = take 50 msg, ownerId = u, chatMessages =
                      [\<lparr>role = User, content' = msg, sources = None\<rparr>,
                       \<lparr>role = Assistant, content' = answer, sources = Some srcs\<rparr>]\<rparr>)))))"
proof -
  let ?new = "\<lparr>title = take 50 msg, ownerId = u, chatMessages = []\<rparr>"
  let ?chats1 = "chats(N chats \<mapsto> ?new)"
  have l: "?chats1 (N chats) = Some ?new" by simp
  note rb = rollback_append [where chats = ?chats1 and c = "N chats", OF l]
  note ap = append_append [where chats = ?chats1 and c = "N chats", OF l]
  show ?thesis
    by (simp add: sendMessage_def Let_def rb ap split: sum.splits)
qed

lemma trim_query_chatPage: "trim (query chatPage) = ''What is X?''"
  by (simp add: chatPage_def trim_def isWhiteSpace_def)

section \<open>Retrieval is scoped to the user\<close>

text \<open>
  Claim C1. Whatever the query, the user id \<open>U\<close>, \<open>topK\<close> and the caller's filter,
  \<open>searchVectorStore\<close> makes one adapter search whose filter maps \<open>userId\<close> to \<open>U\<close>, also
  when the caller's filter has a \<open>userId\<close> of its own; so with an adapter that honours
  its filter, every result returned has \<open>metadata.userId = U\<close>.
\<close>

theorem searchVectorStore_userId_wins:
  "calls (snd (searchVectorStore (Inr vs) q U k flt w)) =
     calls w @ [Search q (case k of None \<Rightarrow> 5 | Some n \<Rightarrow> n) (searchFilter flt U)]
   \<and> searchFilter flt U ''userId'' = Some (JString U)
   \<and> (honoursFilter vs \<longrightarrow>
        (\<forall>rs. fst (searchVectorStore (Inr vs) q U k flt w) = Inr rs \<longrightarrow>
           (\<forall>r\<in>set rs. metadata r ''userId'' = Some (JString U))))"
proof (intro conjI impI allI ballI)
  show "calls (snd (searchVectorStore (Inr vs) q U k flt w)) =
     calls w @ [Search q (case k of None \<Rightarrow> 5 | Some n \<Rightarrow> n) (searchFilter flt U)]"
    by (rule searchVectorStore_calls)
  show "searchFilter flt U ''userId'' = Some (JString U)"
    by (rule searchFilter_userId)
next
  fix rs r
  assume h: "honoursFilter vs"
    and res: "fst (searchVectorStore (Inr vs) q U k flt w) = Inr rs"
    and r: "r \<in> set rs"
  from res have "search vs q (case k of None \<Rightarrow> 5 | Some n \<Rightarrow> n) (searchFilter flt U) (store w)
      = Inr rs"
    by (simp add: searchVectorStore_result)
  with h r have "\<forall>key\<in>dom (searchFilter flt U). metadata r key = searchFilter flt U key"
    unfolding honoursFilter_def by blast
  moreover have "''userId'' \<in> dom (searchFilter flt U)"
    by (simp add: searchFilter_def)
  ultimately show "metadata r ''userId'' = Some (JString U)"
    by (simp add: searchFilter_userId)
qed

theorem searchVectorStore_userId_wins_witness:
  "honoursFilter memoryStore
   \<and> searchFilter (Some [''userId'' \<mapsto> JString ''bob'']) ''alice'' =
       [''userId'' \<mapsto> JString ''alice'']
   \<and> calls (snd (searchVectorStore (Inr memoryStore) ''q'' ''alice'' None
        (Some [''userId'' \<mapsto> JString ''bob'']) twoUsers)) =
       [Search ''q'' 5 [''userId'' \<mapsto> JString ''alice'']]
   \<and> fst (searchVectorStore (Inr memoryStore) ''q'' ''alice'' None
        (Some [''userId'' \<mapsto> JString ''bob'']) twoUsers) =
       Inr [\<lparr>ident = ''c1'', content = ''alpha'',
             metadata = [''userId'' \<mapsto> JString ''alice'', ''documentId'' \<mapsto> JString ''d1''],
             score = 1\<rparr>]"
  using searchVectorStore_userId_wins [of memoryStore "''q''" "''alice''" None
      "Some [''userId'' \<mapsto> JString ''bob'']" twoUsers]
    memoryStore_honoursFilter matches_alice matches_bob
  by (simp add: searchFilter_def searchVectorStore_def twoUsers_def memoryStore_def
      aliceDoc_def Let_def)

section \<open>Retrieval is repeatable\<close>

text \<open>
  Claim C9. Two \<open>searchVectorStore\<close> calls with the same query, user id, \<open>topK\<close> and
  filter against the same store give the same ordered results: the call leaves the store
  as it was, its result depends on the world through the store only, and each call
  queries the adapter again (two calls, two adapter searches; nothing is cached).
\<close>

theorem searchVectorStore_repeatable:
  "store (snd (searchVectorStore (Inr vs) q U k flt w)) = store w
   \<and> (store w' = store w \<longrightarrow>
        fst (searchVectorStore (Inr vs) q U k flt w') =
        fst (searchVectorStore (Inr vs) q U k flt w))
   \<and> fst (searchVectorStore (Inr vs) q U k flt (snd (searchVectorStore (Inr vs) q U k flt w))) =
       fst (searchVectorStore (Inr vs) q U k flt w)
   \<and> calls (snd (searchVectorStore (Inr vs) q U k flt
        (snd (searchVectorStore (Inr vs) q U k flt w)))) =
       calls w @ [Search q (case k of None \<Rightarrow> 5 | Some n \<Rightarrow> n) (searchFilter flt U),
                  Search q (case k of None \<Rightarrow> 5 | Some n \<Rightarrow> n) (searchFilter flt U)]"
proof -
  have st: "store (snd (searchVectorStore (Inr vs) q U k flt v)) = store v" for v :: "'a world"
    by (simp add: searchVectorStore_def Let_def)
  show ?thesis
    by (simp add: st searchVectorStore_result searchVectorStore_calls)
qed

theorem searchVectorStore_repeatable_witness:
  "store (twoUsers\<lparr>console := [StoredChunks 1 ''d1'']\<rparr>) = store twoUsers
   \<and> fst (searchVectorStore (Inr memoryStore) ''q'' ''alice'' (Some 3) None
          (twoUsers\<lparr>console := [StoredChunks 1 ''d1'']\<rparr>)) =
       fst (searchVectorStore (Inr memoryStore) ''q'' ''alice'' (Some 3) None twoUsers)
   \<and> calls (snd (searchVectorStore (Inr memoryStore) ''q'' ''alice'' (Some 3) None
        (snd (searchVectorStore (Inr memoryStore) ''q'' ''alice'' (Some 3) None twoUsers)))) =
       [Search ''q'' 3 [''userId'' \<mapsto> JString ''alice''],
        Search ''q'' 3 [''userId'' \<mapsto> JString ''alice'']]"
  using searchVectorStore_repeatable [of memoryStore "''q''" "''alice''" "Some 3" None twoUsers
      "twoUsers\<lparr>console := [StoredChunks 1 ''d1'']\<rparr>"]
  by (simp add: twoUsers_def searchFilter_def)

section \<open>Cascade deletion\<close>

text \<open>
  Claim C2 (for every document id \<open>deleteFromVectorDB\<close> returns normally and never raises
  to its caller) is what the function is written for, as its comment says, and it holds
  of every error of \<open>search\<close> and \<open>delete\<close> (lemma \<open>deleteFromVectorDB_swallows\<close>). The
  function breaks it all the same: \<^verbatim>\<open>await getVectorStore()\<close> stands before the \<^verbatim>\<open>try\<close>, so
  when the store cannot be reached there, the error leaves the function, no search is
  made and nothing is written to the console.
\<close>

theorem deleteFromVectorDB_raises_without_handle:
  "deleteFromVectorDB noVectorStore ''d1'' twoUsers = (Inl (Error ''ECONNREFUSED''), twoUsers)
   \<and> calls (snd (deleteFromVectorDB noVectorStore ''d1'' twoUsers)) = []
   \<and> console (snd (deleteFromVectorDB noVectorStore ''d1'' twoUsers)) = []
   \<and> deleteFromVectorDB (Inr unreachableStore) ''d1'' twoUsers =
       (Inr (), twoUsers\<lparr>calls := [Search [] 1000 [''documentId'' \<mapsto> JString ''d1'']],
                         console := [ErrorDeletingVectors ''d1'' (Error ''ECONNREFUSED'')]\<rparr>)"
  by (simp add: deleteFromVectorDB_def try_catch_def deleteChunks_def Let_def noVectorStore_def
      unreachableStore_def twoUsers_def)



section \<open>What storeInVectorDB raises\<close>

text \<open>
  The claim C10 as it is worded (\<open>storeInVectorDB\<close> raises if and only if the adapter's
  \<open>upsert\<close> raises, and always makes exactly one \<open>upsert\<close> call) does not hold: when
  \<^verbatim>\<open>await getVectorStore()\<close> rejects, the function raises that error and no \<open>upsert\<close> call
  has been made.
\<close>

theorem storeInVectorDB_raises_without_upsert:
  "storeInVectorDB (splitInto 4) uuidSeq noVectorStore ''d1'' ''abcdef'' Map.empty emptyWorld =
     (Inl (Error ''ECONNREFUSED''), emptyWorld\<lparr>uuidsDrawn := 2\<rparr>)
   \<and> calls (snd (storeInVectorDB (splitInto 4) uuidSeq noVectorStore ''d1'' ''abcdef''
        Map.empty emptyWorld)) = []"
  by (simp add: storeInVectorDB_def splitInto_def noVectorStore_def emptyWorld_def Let_def)

text \<open>
  Claim C10, amended. \<open>storeInVectorDB\<close> has no error branch of its own: it raises if
  and only if one of the three calls it awaits rejects, \<open>splitText\<close>, \<open>getVectorStore\<close>
  or \<open>upsert\<close>, and then with the error of that call. When \<open>splitText\<close> or
  \<open>getVectorStore\<close> rejects, no \<open>upsert\<close> call is made. When both resolve, it makes
  exactly one \<open>upsert\<close> call, carrying one record per chunk in the splitter's order (the
  empty batch for zero chunks), the store is what that call left, and the function
  returns normally, after its console line, exactly when that call resolves.
\<close>

theorem storeInVectorDB_raises_iff_await_rejects:
  "(\<forall>e. splitText text = Inl e \<longrightarrow>
        storeInVectorDB splitText R gvs d text md w = (Inl e, w))
   \<and> (\<forall>chunks e. splitText text = Inr chunks \<longrightarrow> gvs = Inl e \<longrightarrow>
        storeInVectorDB splitText R gvs d text md w =
          (Inl e, w\<lparr>uuidsDrawn := uuidsDrawn w + length chunks\<rparr>))
   \<and> (\<forall>chunks vs. splitText text = Inr chunks \<longrightarrow> gvs = Inr vs \<longrightarrow>
        calls (snd (storeInVectorDB splitText R gvs d text md w)) =
          calls w @ [Upsert (documents R (uuidsDrawn w) md chunks)]
        \<and> length (documents R (uuidsDrawn w) md chunks) = length chunks
        \<and> map content (documents R (uuidsDrawn w) md chunks) = chunks
        \<and> store (snd (storeInVectorDB splitText R gvs d text md w)) =
            snd (upsert vs (documents R (uuidsDrawn w) md chunks) (store w))
        \<and> (\<forall>e. fst (storeInVectorDB splitText R gvs d text md w) = Inl e \<longleftrightarrow>
                 fst (upsert vs (documents R (uuidsDrawn w) md chunks) (store w)) = Some e)
        \<and> (fst (storeInVectorDB splitText R gvs d text md w) = Inr () \<longleftrightarrow>
                 fst (upsert vs (documents R (uuidsDrawn w) md chunks) (store w)) = None)
        \<and> console (snd (storeInVectorDB splitText R gvs d text md w)) =
            (case fst (upsert vs (documents R (uuidsDrawn w) md chunks) (store w)) of
               Some e \<Rightarrow> console w
             | None \<Rightarrow> console w @ [StoredChunks (length chunks) d]))
   \<and> (\<forall>vs. splitText text = Inr [] \<longrightarrow> gvs = Inr vs \<longrightarrow>
        fst (upsert vs [] (store w)) = None \<longrightarrow>
        storeInVectorDB splitText R gvs d text md w =
          (Inr (), w\<lparr>store := snd (upsert vs [] (store w)),
                     calls := calls w @ [Upsert []],
                     console := console w @ [StoredChunks 0 d]\<rparr>))"
proof (intro conjI allI impI)
  fix e
  assume "splitText text = Inl e"
  then show "storeInVectorDB splitText R gvs d text md w = (Inl e, w)"
    by (rule storeInVectorDB_split_rejected)
next
  fix chunks e
  assume "splitText text = Inr chunks" and "gvs = Inl e"
  then show "storeInVectorDB splitText R gvs d text md w =
          (Inl e, w\<lparr>uuidsDrawn := uuidsDrawn w + length chunks\<rparr>)"
    by (simp add: storeInVectorDB_handle_rejected)
next
  fix chunks :: "string list" and vs :: "'a vector_store"
  assume s: "splitText text = Inr chunks" and g: "gvs = Inr vs"
  note r = storeInVectorDB_resolved [of splitText "text" chunks, OF s,
      of R vs d md w]
  show "calls (snd (storeInVectorDB splitText R gvs d text md w)) =
          calls w @ [Upsert (documents R (uuidsDrawn w) md chunks)]"
    by (simp add: g r)
  show "length (documents R (uuidsDrawn w) md chunks) = length chunks"
    by (rule length_documents)
  show "map content (documents R (uuidsDrawn w) md chunks) = chunks"
    by (rule content_documents)
  show "store (snd (storeInVectorDB splitText R gvs d text md w)) =
            snd (upsert vs (documents R (uuidsDrawn w) md chunks) (store w))"
    by (simp add: g r)
  show "fst (storeInVectorDB splitText R gvs d text md w) = Inl e \<longleftrightarrow>
          fst (upsert vs (documents R (uuidsDrawn w) md chunks) (store w)) = Some e" for e
    by (simp add: g r split: option.splits)
  show "fst (storeInVectorDB splitText R gvs d text md w) = Inr () \<longleftrightarrow>
          fst (upsert vs (documents R (uuidsDrawn w) md chunks) (store w)) = None"
    by (simp add: g r split: option.splits)
  show "console (snd (storeInVectorDB splitText R gvs d text md w)) =
            (case fst (upsert vs (documents R (uuidsDrawn w) md chunks) (store w)) of
               Some e \<Rightarrow> console w
             | None \<Rightarrow> console w @ [StoredChunks (length chunks) d])"
    by (simp add: g r)
next
  fix vs :: "'a vector_store"
  assume s: "splitText text = Inr []" and g: "gvs = Inr vs"
    and ok: "fst (upsert vs [] (store w)) = None"
  have "documents R (uuidsDrawn w) md [] = []"
    by (simp add: documents_def)
  with ok show "storeInVectorDB splitText R gvs d text md w =
          (Inr (), w\<lparr>store := snd (upsert vs [] (store w)),
                     calls := calls w @ [Upsert []],
                     console := console w @ [StoredChunks 0 d]\<rparr>)"
    by (simp add: g storeInVectorDB_resolved [of splitText "text" "[]", OF s])
qed

theorem storeInVectorDB_raises_iff_await_rejects_witness:
  "splitInto 4 [] = Inr []
   \<and> fst (upsert memoryStore [] (store emptyWorld)) = None
   \<and> storeInVectorDB (splitInto 4) uuidSeq (Inr memoryStore) ''d1'' [] Map.empty emptyWorld =
       (Inr (), \<lparr>store = [], calls = [Upsert []], console = [StoredChunks 0 ''d1''],
                uuidsDrawn = 0\<rparr>)
   \<and> splitInto 4 ''abcdef'' = Inr [''abcd'', ''ef'']
   \<and> fst (storeInVectorDB (splitInto 4) uuidSeq (Inr unreachableStore) ''d1'' ''abcdef''
          Map.empty emptyWorld) = Inl (Error ''ECONNREFUSED'')
   \<and> storeInVectorDB (splitInto 4) uuidSeq noVectorStore ''d1'' ''abcdef'' Map.empty emptyWorld =
       (Inl (Error ''ECONNREFUSED''), emptyWorld\<lparr>uuidsDrawn := 2\<rparr>)
   \<and> storeInVectorDB (\<lambda>t. Inl (Error ''split'')) uuidSeq (Inr memoryStore) ''d1'' ''abcdef''
        Map.empty emptyWorld = (Inl (Error ''split''), emptyWorld)"
  using storeInVectorDB_raises_iff_await_rejects [of "splitInto 4" "[]" uuidSeq
      "Inr memoryStore" "''d1''" Map.empty emptyWorld]
    storeInVectorDB_raises_iff_await_rejects [of "splitInto 4" "''abcdef''" uuidSeq
      "Inr unreachableStore" "''d1''" Map.empty emptyWorld]
    storeInVectorDB_raises_iff_await_rejects [of "splitInto 4" "''abcdef''" uuidSeq
      noVectorStore "''d1''" Map.empty emptyWorld]
    storeInVectorDB_raises_iff_await_rejects [of "\<lambda>t. Inl (Error ''split'')" "''abcdef''"
      uuidSeq "Inr memoryStore" "''d1''" Map.empty emptyWorld]
    splitInto_empty splitInto_abcdef
  by (simp add: memoryStore_def unreachableStore_def noVectorStore_def emptyWorld_def)

section \<open>Ingestion of zero chunks\<close>

text \<open>
  The claim C3 as the specification words it (an empty text makes ingestion fail with
  \<^verbatim>\<open>EmptyDocumentError\<close> and no upsert is made) does not hold of \<open>storeInVectorDB\<close>: on
  the empty text, with a splitter that yields no chunk and an adapter that accepts the
  batch, the function makes its \<open>upsert\<close> call and returns normally.
\<close>

theorem storeInVectorDB_empty_text_returns:
  "splitInto 4 [] = Inr []
   \<and> storeInVectorDB (splitInto 4) uuidSeq (Inr memoryStore) ''d1'' []
        [''filename'' \<mapsto> JString ''empty.txt''] emptyWorld =
       (Inr (), \<lparr>store = [], calls = [Upsert []], console = [StoredChunks 0 ''d1''],
                uuidsDrawn = 0\<rparr>)"
  by (simp add: storeInVectorDB_def splitInto_def documents_def memoryStore_def emptyWorld_def)

text \<open>
  Claim C3, amended. When chunking yields zero chunks, \<open>storeInVectorDB\<close> raises no
  error of its own. When \<open>getVectorStore\<close> resolves, it makes one \<open>upsert\<close> call with
  the empty batch, returns normally when that call resolves, and fails with the error
  of that call otherwise. When \<open>getVectorStore\<close> rejects, it fails with that error and
  makes no \<open>upsert\<close> call.
\<close>

theorem storeInVectorDB_zero_chunks:
  "splitText text = Inr [] \<Longrightarrow>
   storeInVectorDB splitText R gvs d text md w =
     (case gvs of
        Inl e \<Rightarrow> (Inl e, w)
      | Inr vs \<Rightarrow>
          (case upsert vs [] (store w) of
             (None, s) \<Rightarrow>
               (Inr (), w\<lparr>store := s, calls := calls w @ [Upsert []],
                          console := console w @ [StoredChunks 0 d]\<rparr>)
           | (Some e, s) \<Rightarrow> (Inl e, w\<lparr>store := s, calls := calls w @ [Upsert []]\<rparr>)))"
  by (simp add: storeInVectorDB_def documents_def Let_def
      split: prod.splits option.splits sum.splits)

theorem storeInVectorDB_zero_chunks_witness:
  "splitInto 4 [] = Inr []
   \<and> storeInVectorDB (splitInto 4) uuidSeq (Inr unreachableStore) ''d1'' [] Map.empty twoUsers =
       (Inl (Error ''ECONNREFUSED''), twoUsers\<lparr>calls := [Upsert []]\<rparr>)
   \<and> storeInVectorDB (splitInto 4) uuidSeq (Inr memoryStore) ''d1'' [] Map.empty twoUsers =
       (Inr (), twoUsers\<lparr>calls := [Upsert []], console := [StoredChunks 0 ''d1'']\<rparr>)
   \<and> storeInVectorDB (splitInto 4) uuidSeq noVectorStore ''d1'' [] Map.empty twoUsers =
       (Inl (Error ''ECONNREFUSED''), twoUsers)"
  using storeInVectorDB_zero_chunks [of "splitInto 4" "[]" uuidSeq "Inr unreachableStore"
      "''d1''" Map.empty twoUsers]
    storeInVectorDB_zero_chunks [of "splitInto 4" "[]" uuidSeq "Inr memoryStore" "''d1''"
      Map.empty twoUsers]
    storeInVectorDB_zero_chunks [of "splitInto 4" "[]" uuidSeq noVectorStore "''d1''"
      Map.empty twoUsers]
    splitInto_empty
  by (simp add: unreachableStore_def memoryStore_def noVectorStore_def twoUsers_def)

section \<open>Metadata of the chunk records\<close>

text \<open>
  The claim C6 as the specification words it (every record's metadata holds
  \<open>documentId\<close> and \<open>userId\<close>) does not hold of \<open>storeInVectorDB\<close>: with caller metadata
  that has only a \<open>filename\<close>, the records upserted have neither key.
\<close>

theorem storeInVectorDB_no_userId:
  "calls (snd (storeInVectorDB (splitInto 4) uuidSeq (Inr memoryStore) ''d1'' ''abcdef''
          [''filename'' \<mapsto> JString ''a.txt''] emptyWorld)) =
     [Upsert [\<lparr>ident = uuidSeq 0, content = ''abcd'',
               metadata = [''filename'' \<mapsto> JString ''a.txt'', ''chunkIndex'' \<mapsto> JNumber 0,
                           ''totalChunks'' \<mapsto> JNumber 2]\<rparr>,
              \<lparr>ident = uuidSeq 1, content = ''ef'',
               metadata = [''filename'' \<mapsto> JString ''a.txt'', ''chunkIndex'' \<mapsto> JNumber 1,
                           ''totalChunks'' \<mapsto> JNumber 2]\<rparr>]]
   \<and> [''filename'' \<mapsto> JString ''a.txt'', ''chunkIndex'' \<mapsto> JNumber 0,
       ''totalChunks'' \<mapsto> JNumber 2] ''userId'' = None
   \<and> [''filename'' \<mapsto> JString ''a.txt'', ''chunkIndex'' \<mapsto> JNumber 0,
       ''totalChunks'' \<mapsto> JNumber 2] ''documentId'' = None"
  by (simp add: storeInVectorDB_resolved [of "splitInto 4" "''abcdef''"
      "[''abcd'', ''ef'']", OF splitInto_abcdef] documents_def emptyWorld_def)

text \<open>
  Claim C6, amended. Every chunk record's metadata is the caller's metadata with the two
  keys \<open>chunkIndex\<close> (the chunk's position) and \<open>totalChunks\<close> (the number of chunks)
  set, over whatever the caller gave for them; every other key, \<open>documentId\<close> and
  \<open>userId\<close> among them, is there exactly as in the caller's metadata.
\<close>

theorem storeInVectorDB_metadata:
  "splitText text = Inr chunks \<Longrightarrow>
   calls (snd (storeInVectorDB splitText R (Inr vs) d text md w)) =
     calls w @ [Upsert (documents R (uuidsDrawn w) md chunks)]
   \<and> length (documents R (uuidsDrawn w) md chunks) = length chunks
   \<and> (\<forall>i<length chunks.
        metadata (documents R (uuidsDrawn w) md chunks ! i) =
          md(''chunkIndex'' \<mapsto> JNumber (int i),
             ''totalChunks'' \<mapsto> JNumber (int (length chunks)))
        \<and> content (documents R (uuidsDrawn w) md chunks ! i) = chunks ! i
        \<and> (\<forall>key. key \<noteq> ''chunkIndex'' \<longrightarrow> key \<noteq> ''totalChunks'' \<longrightarrow>
              metadata (documents R (uuidsDrawn w) md chunks ! i) key = md key))"
  by (simp add: storeInVectorDB_resolved length_documents nth_documents)

theorem storeInVectorDB_metadata_witness:
  "splitInto 4 ''abcdef'' = Inr [''abcd'', ''ef'']
   \<and> metadata (documents uuidSeq 0 [''userId'' \<mapsto> JString ''alice'', ''chunkIndex'' \<mapsto> JNumber 7]
        [''abcd'', ''ef''] ! 1) =
       [''userId'' \<mapsto> JString ''alice'', ''chunkIndex'' \<mapsto> JNumber 1,
        ''totalChunks'' \<mapsto> JNumber 2]
   \<and> metadata (documents uuidSeq 0 [''userId'' \<mapsto> JString ''alice'', ''chunkIndex'' \<mapsto> JNumber 7]
        [''abcd'', ''ef''] ! 1) ''userId'' = Some (JString ''alice'')
   \<and> metadata (documents uuidSeq 0 [''userId'' \<mapsto> JString ''alice'', ''chunkIndex'' \<mapsto> JNumber 7]
        [''abcd'', ''ef''] ! 1) ''documentId'' = None"
  using storeInVectorDB_metadata [of "splitInto 4" "''abcdef''" "[''abcd'', ''ef'']" uuidSeq
      memoryStore "''d1''" "[''userId'' \<mapsto> JString ''alice'', ''chunkIndex'' \<mapsto> JNumber 7]"
      emptyWorld, OF splitInto_abcdef]
    splitInto_abcdef
  by (simp add: emptyWorld_def)

section \<open>Identifiers of the chunk records\<close>

text \<open>
  Claim C7. Every chunk record gets a new draw of \<^verbatim>\<open>randomUUID()\<close> as its id: the ids of
  one ingestion are the draws numbered from the count of earlier draws on, one per
  chunk, whatever the document id, the text and the metadata; so with a source whose
  draws never repeat, the ids of one ingestion are pairwise different and no id of an
  ingestion is used again by any later one, of the same document or another.
\<close>

theorem storeInVectorDB_fresh_ids:
  assumes "inj R" and "splitText text = Inr chunks"
  shows "calls (snd (storeInVectorDB splitText R (Inr vs) d text md w)) =
           calls w @ [Upsert (documents R (uuidsDrawn w) md chunks)]
   \<and> map ident (documents R (uuidsDrawn w) md chunks) =
       map R [uuidsDrawn w..<uuidsDrawn w + length chunks]
   \<and> distinct (map ident (documents R (uuidsDrawn w) md chunks))
   \<and> uuidsDrawn (snd (storeInVectorDB splitText R gvs d text md w)) =
       uuidsDrawn w + length chunks
   \<and> (\<forall>n md' chunks'. uuidsDrawn (snd (storeInVectorDB splitText R gvs d text md w)) \<le> n \<longrightarrow>
         set (map ident (documents R (uuidsDrawn w) md chunks)) \<inter>
         set (map ident (documents R n md' chunks')) = {})"
proof (intro conjI allI impI)
  show "calls (snd (storeInVectorDB splitText R (Inr vs) d text md w)) =
           calls w @ [Upsert (documents R (uuidsDrawn w) md chunks)]"
    by (simp add: storeInVectorDB_resolved [of splitText "text" chunks, OF assms(2)])
  show "map ident (documents R (uuidsDrawn w) md chunks) =
       map R [uuidsDrawn w..<uuidsDrawn w + length chunks]"
    by (rule ident_documents)
  show "distinct (map ident (documents R (uuidsDrawn w) md chunks))"
    using assms(1) by (simp add: ident_documents distinct_map inj_on_def inj_def)
  show "uuidsDrawn (snd (storeInVectorDB splitText R gvs d text md w)) =
       uuidsDrawn w + length chunks"
    by (rule storeInVectorDB_uuidsDrawn [of splitText "text" chunks, OF assms(2)])
next
  fix n md' and chunks' :: "string list"
  assume "uuidsDrawn (snd (storeInVectorDB splitText R gvs d text md w)) \<le> n"
  then have le: "uuidsDrawn w + length chunks \<le> n"
    by (simp add: storeInVectorDB_uuidsDrawn [of splitText "text" chunks, OF assms(2)])
  have "R ` {uuidsDrawn w..<uuidsDrawn w + length chunks} \<inter>
        R ` {n..<n + length chunks'} =
        R ` ({uuidsDrawn w..<uuidsDrawn w + length chunks} \<inter> {n..<n + length chunks'})"
    by (rule image_Int [OF assms(1), symmetric])
  also have "{uuidsDrawn w..<uuidsDrawn w + length chunks} \<inter> {n..<n + length chunks'} = {}"
    using le by auto
  finally show "set (map ident (documents R (uuidsDrawn w) md chunks)) \<inter>
         set (map ident (documents R n md' chunks')) = {}"
    by (simp add: ident_documents)
qed

theorem storeInVectorDB_fresh_ids_witness:
  "inj uuidSeq
   \<and> splitInto 4 ''abcdef'' = Inr [''abcd'', ''ef'']
   \<and> map ident (documents uuidSeq 0 Map.empty [''abcd'', ''ef'']) = [''uuid-'', ''uuid-x'']
   \<and> uuidsDrawn (snd (storeInVectorDB (splitInto 4) uuidSeq (Inr memoryStore) ''d1'' ''abcdef''
        Map.empty emptyWorld)) = 2
   \<and> map ident (documents uuidSeq 2 Map.empty [''abcd'', ''ef'']) =
       [''uuid-xx'', ''uuid-xxx'']"
  using storeInVectorDB_fresh_ids [of uuidSeq "splitInto 4" "''abcdef''" "[''abcd'', ''ef'']"
      memoryStore "''d1''" Map.empty emptyWorld "Inr memoryStore",
      OF inj_uuidSeq splitInto_abcdef]
    splitInto_abcdef
  by (simp add: inj_uuidSeq documents_def emptyWorld_def uuidSeq_def eval_nat_numeral)

section \<open>A failed chat turn leaves no question behind\<close>

text \<open>
  Claim C4. When retrieval or generation fails, \<open>sendMessage\<close> removes the user message
  it appended: after a failed call on a chat given, the chats are what they were before
  the call; after a failed call with no chat id, every chat that was there before is
  what it was, and the one chat the call may have created, under an id no chat had, has
  no message. A history in which every question had its answer before the call is such
  a history after it, whether the call failed or not. On the page, \<open>handleSubmit\<close> does
  the same with the messages it shows: when \<^verbatim>\<open>chat.sendMessage\<close> fails, the user message
  it had added is removed, so the list is what it was before (empty for a chat just
  created).
\<close>

theorem sendMessage_failure_rolls_back:
  "(\<forall>e. fst (sendMessage Rt G N u cid msg k chats) = Inl e \<longrightarrow>
        snd (sendMessage Rt G N u cid msg k chats) =
          (case cid of
             Some c \<Rightarrow> chats
           | None \<Rightarrow>
               if chats (N chats) = None
               then chats(N chats \<mapsto> \<lparr>title = take 50 msg, ownerId = u, chatMessages = []\<rparr>)
               else chats)
        \<and> (\<forall>c ch. chats c = Some ch \<longrightarrow>
              snd (sendMessage Rt G N u cid msg k chats) c = Some ch))
   \<and> ((\<forall>c ch. chats c = Some ch \<longrightarrow> answered (chatMessages ch)) \<longrightarrow>
        (\<forall>c ch. snd (sendMessage Rt G N u cid msg k chats) c = Some ch \<longrightarrow>
                answered (chatMessages ch)))
   \<and> (trim (query st) \<noteq> [] \<longrightarrow> \<not> isStreaming st \<longrightarrow>
        currentChatId st = Some c' \<longrightarrow> c' \<noteq> [] \<longrightarrow>
        send c' (trim (query st)) 5 = Inl e' \<longrightarrow>
          fst (handleSubmit createChat send st) = Inr ()
          \<and> messages (snd (handleSubmit createChat send st)) = messages st
          \<and> \<not> isStreaming (snd (handleSubmit createChat send st)))
   \<and> (trim (query st) \<noteq> [] \<longrightarrow> \<not> isStreaming st \<longrightarrow>
        (currentChatId st = None \<or> currentChatId st = Some []) \<longrightarrow>
        createChat (take 50 (trim (query st))) = Inr c' \<longrightarrow>
        send c' (trim (query st)) 5 = Inl e' \<longrightarrow>
          fst (handleSubmit createChat send st) = Inr ()
          \<and> messages (snd (handleSubmit createChat send st)) = []
          \<and> currentChatId (snd (handleSubmit createChat send st)) = Some c')"
proof (intro conjI)
  show "\<forall>e. fst (sendMessage Rt G N u cid msg k chats) = Inl e \<longrightarrow>
        snd (sendMessage Rt G N u cid msg k chats) =
          (case cid of
             Some c \<Rightarrow> chats
           | None \<Rightarrow>
               if chats (N chats) = None
               then chats(N chats \<mapsto> \<lparr>title = take 50 msg, ownerId = u, chatMessages = []\<rparr>)
               else chats)
        \<and> (\<forall>c ch. chats c = Some ch \<longrightarrow>
              snd (sendMessage Rt G N u cid msg k chats) c = Some ch)"
  proof (cases cid)
    case None
    then show ?thesis
      by (auto simp: sendMessage_new split: sum.splits)
  next
    case (Some c)
    then show ?thesis
      by (auto simp: sendMessage_existing split: option.splits sum.splits)
  qed
  show "(\<forall>c ch. chats c = Some ch \<longrightarrow> answered (chatMessages ch)) \<longrightarrow>
        (\<forall>c ch. snd (sendMessage Rt G N u cid msg k chats) c = Some ch \<longrightarrow>
                answered (chatMessages ch))"
  proof (intro impI allI)
    fix c ch
    assume inv: "\<forall>c ch. chats c = Some ch \<longrightarrow> answered (chatMessages ch)"
      and ch: "snd (sendMessage Rt G N u cid msg k chats) c = Some ch"
    show "answered (chatMessages ch)"
    proof (cases cid)
      case None
      with ch inv show ?thesis
        by (auto simp: sendMessage_new split: sum.splits if_splits)
    next
      case (Some c0)
      with ch inv show ?thesis
        by (auto simp: sendMessage_existing split: option.splits sum.splits if_splits
            intro!: answered_append)
    qed
  qed
next
  show "trim (query st) \<noteq> [] \<longrightarrow> \<not> isStreaming st \<longrightarrow>
        currentChatId st = Some c' \<longrightarrow> c' \<noteq> [] \<longrightarrow>
        send c' (trim (query st)) 5 = Inl e' \<longrightarrow>
          fst (handleSubmit createChat send st) = Inr ()
          \<and> messages (snd (handleSubmit createChat send st)) = messages st
          \<and> \<not> isStreaming (snd (handleSubmit createChat send st))"
    by (simp add: handleSubmit_failed [OF _ _ ensureChat_existing])
  show "trim (query st) \<noteq> [] \<longrightarrow> \<not> isStreaming st \<longrightarrow>
        (currentChatId st = None \<or> currentChatId st = Some []) \<longrightarrow>
        createChat (take 50 (trim (query st))) = Inr c' \<longrightarrow>
        send c' (trim (query st)) 5 = Inl e' \<longrightarrow>
          fst (handleSubmit createChat send st) = Inr ()
          \<and> messages (snd (handleSubmit createChat send st)) = []
          \<and> currentChatId (snd (handleSubmit createChat send st)) = Some c'"
    by (simp add: handleSubmit_failed [OF _ _ ensureChat_new])
qed

theorem sendMessage_failure_rolls_back_witness:
  "fst (sendMessage (\<lambda>q u k. Inl (Error ''StoreReadError'')) (\<lambda>q ps. Inr ''answer'')
          (\<lambda>chats. ''c2'') ''alice'' (Some ''c1'') ''What is X?'' 5 oneChat) =
     Inl (Error ''StoreReadError'')
   \<and> snd (sendMessage (\<lambda>q u k. Inl (Error ''StoreReadError'')) (\<lambda>q ps. Inr ''answer'')
          (\<lambda>chats. ''c2'') ''alice'' (Some ''c1'') ''What is X?'' 5 oneChat) = oneChat
   \<and> fst (sendMessage (\<lambda>q u k. Inr []) (\<lambda>q ps. Inl (Error ''GenerationError''))
          (\<lambda>chats. ''c2'') ''alice'' (Some ''c1'') ''What is X?'' 5 oneChat) =
     Inl (Error ''GenerationError'')
   \<and> snd (sendMessage (\<lambda>q u k. Inr []) (\<lambda>q ps. Inl (Error ''GenerationError''))
          (\<lambda>chats. ''c2'') ''alice'' (Some ''c1'') ''What is X?'' 5 oneChat) = oneChat
   \<and> sendMessage (\<lambda>q u k. Inr []) (\<lambda>q ps. Inl (Error ''GenerationError''))
          (\<lambda>chats. ''c1'') ''mallory'' None ''What is X?'' 5 oneChat =
       (Inl (Error ''chat id in use''), oneChat)
   \<and> snd (sendMessage (\<lambda>q u k. Inr []) (\<lambda>q ps. Inl (Error ''GenerationError''))
          (\<lambda>chats. ''c2'') ''alice'' None ''What is X?'' 5 oneChat) =
       oneChat(''c2'' \<mapsto> \<lparr>title = ''What is X?'', ownerId = ''alice'', chatMessages = []\<rparr>)
   \<and> trim (query chatPage) = ''What is X?''
   \<and> fst (handleSubmit (\<lambda>t. Inr ''c2'') (\<lambda>c m k. Inl (Error ''GenerationError'')) chatPage) =
       Inr ()
   \<and> messages (snd (handleSubmit (\<lambda>t. Inr ''c2'') (\<lambda>c m k. Inl (Error ''GenerationError''))
        chatPage)) = messages chatPage
   \<and> trim [CHR 0xA0, CHR '' ''] = []
   \<and> handleSubmit (\<lambda>t. Inr ''c2'') (\<lambda>c m k. Inl (Error ''GenerationError''))
        (chatPage\<lparr>query := [CHR 0xA0, CHR '' ''], currentChatId := None\<rparr>) =
       (Inr (), chatPage\<lparr>query := [CHR 0xA0, CHR '' ''], currentChatId := None\<rparr>)"
proof -
  let ?Rf = "\<lambda>q u k. Inl (Error ''StoreReadError'') :: error + search_result list"
  let ?Rk = "\<lambda>q u k. Inr [] :: error + search_result list"
  let ?Gk = "\<lambda>q ps. Inr ''answer'' :: error + string"
  let ?Gf = "\<lambda>q ps. Inl (Error ''GenerationError'') :: error + string"
  let ?send = "\<lambda>c m k. Inl (Error ''GenerationError'') :: error + string \<times> search_result list option"
  let ?create = "\<lambda>t. Inr ''c2'' :: error + string"
  have r: "fst (sendMessage ?Rf ?Gk (\<lambda>chats. ''c2'') ''alice'' (Some ''c1'') ''What is X?'' 5
      oneChat) = Inl (Error ''StoreReadError'')"
    by (simp add: sendMessage_existing oneChat_def)
  have g: "fst (sendMessage ?Rk ?Gf (\<lambda>chats. ''c2'') ''alice'' (Some ''c1'') ''What is X?'' 5
      oneChat) = Inl (Error ''GenerationError'')"
    by (simp add: sendMessage_existing oneChat_def)
  have fresh: "oneChat ''c2'' = None"
    by (simp add: oneChat_def)
  have n: "fst (sendMessage ?Rk ?Gf (\<lambda>chats. ''c2'') ''alice'' None ''What is X?'' 5 oneChat) =
      Inl (Error ''GenerationError'')"
    by (simp add: sendMessage_new fresh)
  have u: "sendMessage ?Rk ?Gf (\<lambda>chats. ''c1'') ''mallory'' None ''What is X?'' 5 oneChat =
       (Inl (Error ''chat id in use''), oneChat)"
    by (simp add: sendMessage_new oneChat_def)
  have t: "trim [CHR 0xA0, CHR '' ''] = []"
    by (simp add: trim_def isWhiteSpace_def)
  have b: "handleSubmit ?create ?send
        (chatPage\<lparr>query := [CHR 0xA0, CHR '' ''], currentChatId := None\<rparr>) =
       (Inr (), chatPage\<lparr>query := [CHR 0xA0, CHR '' ''], currentChatId := None\<rparr>)"
    by (simp add: handleSubmit_def t)
  note A = sendMessage_failure_rolls_back [of ?Rf ?Gk "\<lambda>chats. ''c2''" "''alice''"
      "Some ''c1''" "''What is X?''" 5 oneChat chatPage "''c1''" ?send
      "Error ''GenerationError''" ?create]
  note B = sendMessage_failure_rolls_back [of ?Rk ?Gf "\<lambda>chats. ''c2''" "''alice''"
      "Some ''c1''" "''What is X?''" 5 oneChat chatPage "''c1''" ?send
      "Error ''GenerationError''" ?create]
  note C = sendMessage_failure_rolls_back [of ?Rk ?Gf "\<lambda>chats. ''c2''" "''alice''"
      None "''What is X?''" 5 oneChat chatPage "''c1''" ?send
      "Error ''GenerationError''" ?create]
  have a1: "snd (sendMessage ?Rf ?Gk (\<lambda>chats. ''c2'') ''alice'' (Some ''c1'') ''What is X?'' 5
      oneChat) = oneChat"
    using A [THEN conjunct1, rule_format, OF r, THEN conjunct1] by simp
  have b1: "snd (sendMessage ?Rk ?Gf (\<lambda>chats. ''c2'') ''alice'' (Some ''c1'') ''What is X?'' 5
      oneChat) = oneChat"
    using B [THEN conjunct1, rule_format, OF g, THEN conjunct1] by simp
  have c1: "snd (sendMessage ?Rk ?Gf (\<lambda>chats. ''c2'') ''alice'' None ''What is X?'' 5 oneChat) =
      oneChat(''c2'' \<mapsto> \<lparr>title = ''What is X?'', ownerId = ''alice'', chatMessages = []\<rparr>)"
    using C [THEN conjunct1, rule_format, OF n, THEN conjunct1] by (simp add: fresh)
  have q: "trim (query chatPage) \<noteq> []" "\<not> isStreaming chatPage"
    "currentChatId chatPage = Some ''c1''" "''c1'' \<noteq> []"
    "?send ''c1'' (trim (query chatPage)) 5 = Inl (Error ''GenerationError'')"
    by (simp_all add: trim_query_chatPage) (simp_all add: chatPage_def)
  note h = A [THEN conjunct2, THEN conjunct2, THEN conjunct1, rule_format, OF q]
  show ?thesis
    by (intro conjI r a1 g b1 u c1 trim_query_chatPage t b h [THEN conjunct1]
        h [THEN conjunct2, THEN conjunct1])
qed

end
